theory Spec2Isabelle
  imports Complex_Main "HOL-Library.Word" "HOL-Library.Char_ord" "HOL-Library.List_Lexorder"
    "HOL-Library.Multiset"
begin

section \<open>Data model\<close>

text \<open>
  A JavaScript array is an object: two arrays with the same elements are still two
  objects, and \<^verbatim>\<open>!==\<close> compares the objects. An array is therefore a
  reference together with its elements; \<open>ref\<close> is what \<^verbatim>\<open>===\<close> reads and
  \<open>elems\<close> is what \<^verbatim>\<open>filter\<close>, \<^verbatim>\<open>map\<close> and \<^verbatim>\<open>deepEqual\<close> read.
\<close>

datatype 'a jsarray = Arr (ref: nat) (elems: "'a list")

type_synonym device_id = string

text \<open>The descriptor that \<^verbatim>\<open>sendDeviceList\<close> copies out of every port.\<close>

record device =
  dev_id :: device_id
  dev_manufacturer :: string
  dev_name :: string
  dev_type :: string
  dev_version :: string
  dev_state :: string
  dev_connection :: string

text \<open>
  A MIDI message as the action creators document it: the bytes of a
  \<^verbatim>\<open>Uint8Array\<close>, a \<^verbatim>\<open>DOMHighResTimeStamp\<close> (\<open>None\<close> is
  \<^verbatim>\<open>undefined\<close>) and the id of the device.
\<close>

record midi_message =
  timestamp :: "real option"
  data :: "8 word list"
  device :: device_id

subsection \<open>Actions and reducer\<close>

text \<open>
  The four action types of the duck, and \<open>OTHER\<close> for an action of any other type
  (its \<^verbatim>\<open>type\<close> string is the argument).
\<close>

datatype action =
    RECEIVE_DEVICE_LIST "device jsarray"
  | SET_LISTENING_DEVICES "device_id jsarray"
  | RECEIVE_MIDI_MESSAGE midi_message
  | SEND_MIDI_MESSAGE midi_message
  | OTHER string

definition receiveDeviceList :: "device jsarray \<Rightarrow> action" where
  "receiveDeviceList devices = RECEIVE_DEVICE_LIST devices"

definition setListeningDevices :: "device_id jsarray \<Rightarrow> action" where
  "setListeningDevices listeningDevices = SET_LISTENING_DEVICES listeningDevices"

definition receiveMidiMessage :: "midi_message \<Rightarrow> action" where
  "receiveMidiMessage message = RECEIVE_MIDI_MESSAGE message"

definition sendMidiMessage :: "midi_message \<Rightarrow> action" where
  "sendMidiMessage message = SEND_MIDI_MESSAGE message"

record midi_state =
  devices :: "device jsarray"
  listeningDevices :: "device_id jsarray"

text \<open>
  \<^verbatim>\<open>initialState\<close> is one object of the module: its two empty arrays are the
  references 0 and 1.
\<close>

definition initialState :: midi_state where
  "initialState = \<lparr>devices = Arr 0 [], listeningDevices = Arr 1 []\<rparr>"

text \<open>
  \<^verbatim>\<open>myDuck.createReducer(cases, initialState)\<close>: the reducer runs the case of the
  action's type on the state and returns the state itself when no case has that type.
  Each of the two cases copies the state and replaces one field by the payload.
\<close>

fun reducer_cases :: "midi_state \<Rightarrow> action \<Rightarrow> midi_state" where
  "reducer_cases state (RECEIVE_DEVICE_LIST payload) = state\<lparr>devices := payload\<rparr>"
| "reducer_cases state (SET_LISTENING_DEVICES payload) = state\<lparr>listeningDevices := payload\<rparr>"
| "reducer_cases state _ = state"

text \<open>
  The state parameter defaults to \<^verbatim>\<open>initialState\<close>: \<open>None\<close> is the
  \<^verbatim>\<open>undefined\<close> that the store passes at initialisation.
\<close>

definition reducer :: "midi_state option \<Rightarrow> action \<Rightarrow> midi_state" where
  "reducer state action =
     reducer_cases (case state of None \<Rightarrow> initialState | Some s \<Rightarrow> s) action"

text \<open>The store runs the reducer on each dispatched action in turn.\<close>

fun reduce_all :: "midi_state \<Rightarrow> action list \<Rightarrow> midi_state" where
  "reduce_all state [] = state"
| "reduce_all state (a # as) = reduce_all (reducer (Some state) a) as"

text \<open>The payloads of the actions of one type, in dispatch order.\<close>

fun device_lists :: "action list \<Rightarrow> device jsarray list" where
  "device_lists [] = []"
| "device_lists (RECEIVE_DEVICE_LIST p # as) = p # device_lists as"
| "device_lists (_ # as) = device_lists as"

fun listening_lists :: "action list \<Rightarrow> device_id jsarray list" where
  "listening_lists [] = []"
| "listening_lists (SET_LISTENING_DEVICES p # as) = p # listening_lists as"
| "listening_lists (_ # as) = listening_lists as"

subsection \<open>observeStore\<close>

text \<open>
  The closure of one \<^verbatim>\<open>observeStore\<close> call: the variable
  \<^verbatim>\<open>currentState\<close> (\<open>None\<close> is \<^verbatim>\<open>undefined\<close>, its value before the
  first assignment) and the calls \<^verbatim>\<open>onChange(next, prev)\<close> made so far, oldest
  first. A value of type \<open>'v\<close> is a selection as \<^verbatim>\<open>!==\<close> sees it: the
  reference of the selected object.
\<close>

record 'v observer =
  currentState :: "'v option"
  onChange_calls :: "('v option \<times> 'v option) list"

definition handleChange :: "('s \<Rightarrow> 'v option) \<Rightarrow> 's \<Rightarrow> 'v observer \<Rightarrow> 'v observer" where
  "handleChange select getState obs =
     (let nextState = select getState in
      if nextState \<noteq> currentState obs then
        (let prevState = currentState obs in
         obs\<lparr>currentState := nextState,
             onChange_calls := onChange_calls obs @ [(nextState, prevState)]\<rparr>)
      else obs)"

text \<open>
  The listener that \<^verbatim>\<open>observeStore\<close> passes to \<^verbatim>\<open>subscribe\<close> is its own
  \<^verbatim>\<open>handleChange\<close>; \<open>subscribe\<close> is the store's function, and what it returns
  is the store's unsubscribe function.
\<close>

datatype listener = HandleChange

record ('v, 'u) observed =
  unsubscribe :: 'u
  observer :: "'v observer"

definition observeStore ::
  "'s \<Rightarrow> (listener \<Rightarrow> 'u) \<Rightarrow> ('s \<Rightarrow> 'v option) \<Rightarrow> ('v, 'u) observed" where
  "observeStore getState subscribe select =
     (let unsubscribe = subscribe HandleChange;
          obs = handleChange select getState \<lparr>currentState = None, onChange_calls = []\<rparr>
      in \<lparr>unsubscribe = unsubscribe, observer = obs\<rparr>)"

text \<open>The store calls the listener after each dispatch, with the state of that moment.\<close>

fun notify :: "('s \<Rightarrow> 'v option) \<Rightarrow> 's list \<Rightarrow> 'v observer \<Rightarrow> 'v observer" where
  "notify select [] obs = obs"
| "notify select (st # sts) obs = notify select sts (handleChange select st obs)"

text \<open>
  The changes of a sequence of selections read from the last seen one: each selection
  that is not the one before it, paired with the one before it.
\<close>

fun changes :: "'v option \<Rightarrow> 'v option list \<Rightarrow> ('v option \<times> 'v option) list" where
  "changes seen [] = []"
| "changes seen (x # xs) = (if x \<noteq> seen then (x, seen) # changes x xs else changes seen xs)"

subsection \<open>The state of one setup call\<close>

datatype error = TypeError

text \<open>
  \<^verbatim>\<open>MIDIAccess\<close>: the maps \<^verbatim>\<open>inputs\<close> and \<^verbatim>\<open>outputs\<close> from port id to
  port, in insertion order. A port is read through the seven properties of its
  descriptor; its \<^verbatim>\<open>onmidimessage\<close> property and its \<^verbatim>\<open>send\<close> method are
  state and effect, and live in the world below.
\<close>

record midi_access =
  inputs :: "(device_id \<times> device) list"
  outputs :: "(device_id \<times> device) list"

definition has :: "(device_id \<times> device) list \<Rightarrow> device_id \<Rightarrow> bool" where
  "has m k = (k \<in> set (map fst m))"

definition values_of :: "(device_id \<times> device) list \<Rightarrow> device list" where
  "values_of m = map snd m"

text \<open>
  The variable \<^verbatim>\<open>midiAccess\<close> of \<^verbatim>\<open>setup\<close>: \<^verbatim>\<open>undefined\<close>, the promise
  made by the n-th call of \<^verbatim>\<open>requestMIDIAccess\<close> (pending or rejected), or the
  handle that promise was fulfilled with. A promise has a \<^verbatim>\<open>then\<close> property and
  no \<^verbatim>\<open>inputs\<close> or \<^verbatim>\<open>outputs\<close>; a handle is the reverse.
\<close>

datatype promise_state = Pending | Rejected

datatype access_var = Undefined | Thenable nat promise_state | Handle midi_access

text \<open>
  What \<^verbatim>\<open>requestMIDIAccessOnce\<close> returns: the stored promise itself
  (\<^verbatim>\<open>Promise.resolve\<close> of a promise is that promise), or a new promise already
  fulfilled with the handle.
\<close>

datatype promise = Stored nat promise_state | Fresh midi_access

text \<open>The callbacks that the middleware chains with \<^verbatim>\<open>then\<close>, and the deferred snapshot.\<close>

datatype task = Bootstrap | Send midi_message | SendDeviceList

text \<open>
  Everything one \<^verbatim>\<open>setup\<close> call and its store can change: the variable
  \<^verbatim>\<open>midiAccess\<close>; the number of calls of \<^verbatim>\<open>requestMIDIAccess(midiOptions)\<close>;
  the callbacks waiting on the pending promise; the microtask queue; whether the
  handle's \<^verbatim>\<open>onstatechange\<close> is set; for each input port, the device id in the
  closure of its \<^verbatim>\<open>onmidimessage\<close> callback (\<open>None\<close> when it has none); the
  calls \<^verbatim>\<open>send(data, timestamp)\<close> made on output ports, oldest first, each with
  the key of its port; the store's state, read by key (\<^verbatim>\<open>getState()[stateKey]\<close>);
  the actions that reached the store's reducer, oldest first; and the reference the
  next new array gets.
\<close>

record world =
  midiAccess :: access_var
  requestCalls :: nat
  thenCallbacks :: "task list"
  microtasks :: "task list"
  onstatechange :: bool
  onmidimessage :: "device_id \<Rightarrow> device_id option"
  sendCalls :: "(device_id \<times> 8 word list \<times> real option) list"
  getState :: "string \<Rightarrow> midi_state option"
  dispatched :: "action list"
  nextRef :: nat

text \<open>A call that returns a value or throws, and the world it leaves.\<close>

type_synonym 'a outcome = "(error + 'a) \<times> world"

text \<open>
  The configuration object of \<^verbatim>\<open>setup\<close>: each property may be left out. The
  argument of \<^verbatim>\<open>setup\<close> itself is \<open>None\<close> when the call passes none.
\<close>

record ('o, 'r) config =
  cfg_midiOptions :: "'o option"
  cfg_stateKey :: "string option"
  cfg_requestMIDIAccess :: "'r option"

text \<open>What the two middleware functions close over.\<close>

record ('o, 'r) closure =
  cl_midiOptions :: "'o option"
  cl_stateKey :: string
  cl_requestMIDIAccess :: 'r
  cl_world :: world

definition new_world :: world where
  "new_world =
     \<lparr>midiAccess = Undefined, requestCalls = 0, thenCallbacks = [], microtasks = [],
      onstatechange = False, onmidimessage = (\<lambda>_. None), sendCalls = [],
      getState = (\<lambda>_. None), dispatched = [], nextRef = 2\<rparr>"

text \<open>
  \<^verbatim>\<open>setup({midiOptions, stateKey = 'midi', requestMIDIAccess = defaultRequestMIDIAccess})\<close>:
  destructuring \<^verbatim>\<open>undefined\<close> throws a TypeError.
\<close>

definition setup_midi :: "'r \<Rightarrow> ('o, 'r) config option \<Rightarrow> error + ('o, 'r) closure" where
  "setup_midi defaultRequestMIDIAccess arg =
     (case arg of
        None \<Rightarrow> Inl TypeError
      | Some c \<Rightarrow>
          Inr \<lparr>cl_midiOptions = cfg_midiOptions c,
               cl_stateKey = (case cfg_stateKey c of None \<Rightarrow> ''midi'' | Some k \<Rightarrow> k),
               cl_requestMIDIAccess =
                 (case cfg_requestMIDIAccess c of None \<Rightarrow> defaultRequestMIDIAccess | Some r \<Rightarrow> r),
               cl_world = new_world\<rparr>)"

subsection \<open>requestMIDIAccessOnce\<close>

definition requestMIDIAccessOnce :: "world \<Rightarrow> promise \<times> world" where
  "requestMIDIAccessOnce w =
     (case midiAccess w of
        Undefined \<Rightarrow>
          (let n = requestCalls w + 1 in
           (Stored n Pending, w\<lparr>requestCalls := n, midiAccess := Thenable n Pending\<rparr>))
      | Thenable n st \<Rightarrow> (Stored n st, w)
      | Handle a \<Rightarrow> (Fresh a, w))"

text \<open>
  \<^verbatim>\<open>promise.then(callback)\<close>: the callback waits on a pending promise, is queued as
  a microtask on a fulfilled one, and is never called on a rejected one.
\<close>

definition then_callback :: "promise \<Rightarrow> task \<Rightarrow> world \<Rightarrow> world" where
  "then_callback p cb w =
     (case p of
        Stored n Pending \<Rightarrow> w\<lparr>thenCallbacks := thenCallbacks w @ [cb]\<rparr>
      | Stored n Rejected \<Rightarrow> w
      | Fresh a \<Rightarrow> w\<lparr>microtasks := microtasks w @ [cb]\<rparr>)"

text \<open>
  The promise of \<^verbatim>\<open>requestMIDIAccess\<close> settles. Fulfilled, its first callback
  assigns the handle to \<^verbatim>\<open>midiAccess\<close>, and the callbacks waiting on the stored
  promise are queued. Rejected, that first callback does not run: the variable keeps
  the promise, now rejected, and the waiting callbacks are never called.
\<close>

definition resolveAccess :: "midi_access \<Rightarrow> world \<Rightarrow> world" where
  "resolveAccess receivedMidiAccess w =
     (case midiAccess w of
        Thenable n Pending \<Rightarrow>
          w\<lparr>midiAccess := Handle receivedMidiAccess,
            microtasks := microtasks w @ thenCallbacks w,
            thenCallbacks := []\<rparr>
      | _ \<Rightarrow> w)"

definition rejectAccess :: "world \<Rightarrow> world" where
  "rejectAccess w =
     (case midiAccess w of
        Thenable n Pending \<Rightarrow> w\<lparr>midiAccess := Thenable n Rejected, thenCallbacks := []\<rparr>
      | _ \<Rightarrow> w)"

text \<open>Calling \<^verbatim>\<open>requestMIDIAccessOnce\<close> again and again, the returned promises collected.\<close>

fun request_times :: "nat \<Rightarrow> world \<Rightarrow> promise list \<times> world" where
  "request_times 0 w = ([], w)"
| "request_times (Suc k) w =
     (let (p, w1) = requestMIDIAccessOnce w; (ps, w2) = request_times k w1 in (p # ps, w2))"

subsection \<open>The device snapshot\<close>

text \<open>The object literal that \<^verbatim>\<open>sendDeviceList\<close> builds from a port, property by property.\<close>

definition descriptor :: "device \<Rightarrow> device" where
  "descriptor port =
     \<lparr>dev_id = dev_id port, dev_manufacturer = dev_manufacturer port, dev_name = dev_name port,
      dev_type = dev_type port, dev_version = dev_version port, dev_state = dev_state port,
      dev_connection = dev_connection port\<rparr>"

text \<open>
  \<^verbatim>\<open>sortBy(collection, 'id')\<close> of lodash: a stable sort, ascending in the key; strings
  compare unit by unit, as \<open>char list\<close> does in the lexicographic order.
\<close>

definition sortBy :: "'a list \<Rightarrow> ('a \<Rightarrow> 'k::linorder) \<Rightarrow> 'a list" where
  "sortBy collection key = sort_key key collection"

text \<open>
  \<^verbatim>\<open>deepEqual\<close> on two arrays of descriptors: the same length, and at every index
  the same value under each of the seven keys. References play no part.
\<close>

definition deepEqual_device :: "device \<Rightarrow> device \<Rightarrow> bool" where
  "deepEqual_device x y =
     (dev_id x = dev_id y \<and> dev_manufacturer x = dev_manufacturer y \<and> dev_name x = dev_name y \<and>
      dev_type x = dev_type y \<and> dev_version x = dev_version y \<and> dev_state x = dev_state y \<and>
      dev_connection x = dev_connection y)"

fun deepEqual :: "device list \<Rightarrow> device list \<Rightarrow> bool" where
  "deepEqual [] [] = True"
| "deepEqual (x # xs) (y # ys) = (deepEqual_device x y \<and> deepEqual xs ys)"
| "deepEqual _ _ = False"

definition snapshot :: "midi_access \<Rightarrow> device list" where
  "snapshot a = sortBy (map descriptor (values_of (inputs a) @ values_of (outputs a))) dev_id"

text \<open>
  \<^verbatim>\<open>sendDeviceList\<close>, with the \<^verbatim>\<open>dispatch\<close> of the store it was given. Reading
  \<^verbatim>\<open>inputs\<close> of a variable that holds no handle, or \<^verbatim>\<open>devices\<close> of a state
  that has nothing under \<^verbatim>\<open>stateKey\<close>, throws.
\<close>

definition sendDeviceList ::
  "(action \<Rightarrow> world \<Rightarrow> action outcome) \<Rightarrow> string \<Rightarrow> world \<Rightarrow> unit outcome" where
  "sendDeviceList dispatch stateKey w =
     (case midiAccess w of
        Handle a \<Rightarrow>
          (let devices = snapshot a in
           case getState w stateKey of
             None \<Rightarrow> (Inl TypeError, w)
           | Some state \<Rightarrow>
               if \<not> deepEqual devices (elems (midi_state.devices state)) then
                 (case dispatch (receiveDeviceList (Arr (nextRef w) devices))
                         (w\<lparr>nextRef := nextRef w + 1\<rparr>) of
                    (Inl e, w1) \<Rightarrow> (Inl e, w1)
                  | (Inr _, w1) \<Rightarrow> (Inr (), w1))
               else (Inr (), w))
      | _ \<Rightarrow> (Inl TypeError, w))"

subsection \<open>inputMiddleware\<close>

text \<open>
  \<^verbatim>\<open>midiAccess.inputs.has(device)\<close>: a TypeError unless the variable holds a handle
  (\<^verbatim>\<open>undefined\<close> has no properties, and a promise has no \<^verbatim>\<open>inputs\<close>).
\<close>

definition inputs_has :: "access_var \<Rightarrow> device_id \<Rightarrow> error + bool" where
  "inputs_has m d = (case m of Handle a \<Rightarrow> Inr (has (inputs a) d) | _ \<Rightarrow> Inl TypeError)"

text \<open>\<^verbatim>\<open>Array.prototype.filter\<close> with a callback that may throw: the first throw ends it.\<close>

fun filterE :: "('a \<Rightarrow> error + bool) \<Rightarrow> 'a list \<Rightarrow> error + 'a list" where
  "filterE p [] = Inr []"
| "filterE p (x # xs) =
     (case p x of
        Inl e \<Rightarrow> Inl e
      | Inr b \<Rightarrow>
          (case filterE p xs of
             Inl e \<Rightarrow> Inl e
           | Inr ys \<Rightarrow> Inr (if b then x # ys else ys)))"

text \<open>
  The first \<^verbatim>\<open>if\<close> of the handler: what it pushes to \<^verbatim>\<open>toListen\<close> and to
  \<^verbatim>\<open>toUnlisten\<close>. (\<^verbatim>\<open>prevState\<close> is an object there, so the conditional in
  \<^verbatim>\<open>new Set(prevState ? prevState.listeningDevices : [])\<close> takes its first branch.)
\<close>

definition listeningDiff :: "midi_state \<Rightarrow> midi_state \<Rightarrow> device_id list \<times> device_id list" where
  "listeningDiff prevState state =
     (if ref (listeningDevices state) \<noteq> ref (listeningDevices prevState) then
        (let prev = set (elems (listeningDevices prevState));
             nxt = set (elems (listeningDevices state))
         in (filter (\<lambda>dev. dev \<notin> prev) (elems (listeningDevices state)),
             filter (\<lambda>dev. dev \<notin> nxt) (elems (listeningDevices prevState))))
      else ([], []))"

text \<open>The second \<^verbatim>\<open>if\<close>: what it pushes to \<^verbatim>\<open>toListen\<close>.\<close>

definition devicesDiff :: "access_var \<Rightarrow> midi_state \<Rightarrow> midi_state \<Rightarrow> error + device_id list" where
  "devicesDiff m prevState state =
     (if ref (devices state) \<noteq> ref (devices prevState) then
        (let prev = set (map dev_id (elems (devices prevState)));
             nxt = set (map dev_id (elems (devices state)))
         in filterE
              (\<lambda>device. case inputs_has m device of
                           Inl e \<Rightarrow> Inl e
                         | Inr b \<Rightarrow> Inr (b \<and> device \<in> nxt \<and> device \<notin> prev))
              (elems (listeningDevices state)))
      else Inr [])"

text \<open>\<^verbatim>\<open>toListen\<close> and \<^verbatim>\<open>toUnlisten\<close> as the two \<^verbatim>\<open>if\<close>s leave them.\<close>

definition listenDiff ::
  "access_var \<Rightarrow> midi_state \<Rightarrow> midi_state \<Rightarrow> error + (device_id list \<times> device_id list)" where
  "listenDiff m prevState state =
     (let (toListen, toUnlisten) = listeningDiff prevState state in
      case devicesDiff m prevState state of
        Inl e \<Rightarrow> Inl e
      | Inr added \<Rightarrow> Inr (toListen @ added, toUnlisten))"

text \<open>The two \<^verbatim>\<open>for\<close> loops: clearing and installing \<^verbatim>\<open>onmidimessage\<close>.\<close>

fun unlisten :: "device_id list \<Rightarrow> world \<Rightarrow> unit outcome" where
  "unlisten [] w = (Inr (), w)"
| "unlisten (d # rest) w =
     (case inputs_has (midiAccess w) d of
        Inl e \<Rightarrow> (Inl e, w)
      | Inr b \<Rightarrow>
          unlisten rest (if b then w\<lparr>onmidimessage := (onmidimessage w)(d := None)\<rparr> else w))"

fun listen :: "device_id list \<Rightarrow> world \<Rightarrow> unit outcome" where
  "listen [] w = (Inr (), w)"
| "listen (d # rest) w =
     (case inputs_has (midiAccess w) d of
        Inl e \<Rightarrow> (Inl e, w)
      | Inr b \<Rightarrow>
          listen rest (if b then w\<lparr>onmidimessage := (onmidimessage w)(d \<mapsto> d)\<rparr> else w))"

text \<open>
  The handler \<^verbatim>\<open>action => ...\<close> of \<^verbatim>\<open>inputMiddleware\<close>, for the
  \<^verbatim>\<open>next\<close> it was given. Reading \<^verbatim>\<open>listeningDevices\<close> of a state that has
  nothing under \<^verbatim>\<open>stateKey\<close> throws.
\<close>

definition inputMiddleware_handler ::
  "string \<Rightarrow> (action \<Rightarrow> world \<Rightarrow> action outcome) \<Rightarrow> action \<Rightarrow> world \<Rightarrow> action outcome" where
  "inputMiddleware_handler stateKey nxt action w =
     (let prevState = (case getState w stateKey of None \<Rightarrow> initialState | Some s \<Rightarrow> s) in
      case nxt action w of
        (Inl e, w1) \<Rightarrow> (Inl e, w1)
      | (Inr action1, w1) \<Rightarrow>
          (case getState w1 stateKey of
             None \<Rightarrow> (Inl TypeError, w1)
           | Some state \<Rightarrow>
               (case listenDiff (midiAccess w1) prevState state of
                  Inl e \<Rightarrow> (Inl e, w1)
                | Inr (toListen, toUnlisten) \<Rightarrow>
                    (case unlisten toUnlisten w1 of
                       (Inl e, w2) \<Rightarrow> (Inl e, w2)
                     | (Inr _, w2) \<Rightarrow>
                         (case listen toListen w2 of
                            (Inl e, w3) \<Rightarrow> (Inl e, w3)
                          | (Inr _, w3) \<Rightarrow> (Inr action1, w3))))))"

text \<open>
  \<^verbatim>\<open>next => ...\<close> of \<^verbatim>\<open>inputMiddleware\<close>, run once when the store is built: it
  asks for the handle and chains the bootstrap callback.
\<close>

definition inputMiddleware_install :: "world \<Rightarrow> world" where
  "inputMiddleware_install w =
     (let (p, w1) = requestMIDIAccessOnce w in then_callback p Bootstrap w1)"

text \<open>
  The event that a port passes to \<^verbatim>\<open>onmidimessage\<close>: its three timestamp
  properties (\<open>None\<close> is \<^verbatim>\<open>undefined\<close>) and its bytes.
\<close>

record raw_event =
  receivedTime :: "real option"
  timeStamp :: "real option"
  timestamp_ev :: "real option"
  data_ev :: "8 word list"

text \<open>The callback installed for the device \<open>d\<close>, with the store's \<^verbatim>\<open>dispatch\<close>.\<close>

definition onmidimessage_callback ::
  "(action \<Rightarrow> world \<Rightarrow> action outcome) \<Rightarrow> device_id \<Rightarrow> raw_event \<Rightarrow> world \<Rightarrow> action outcome" where
  "onmidimessage_callback dispatch d ev w =
     (let timestamp =
            (case filter (\<lambda>x. x \<noteq> None) [receivedTime ev, timeStamp ev, timestamp_ev ev] of
               [] \<Rightarrow> None
             | x # _ \<Rightarrow> x)
      in dispatch (receiveMidiMessage \<lparr>timestamp = timestamp, data = data_ev ev, device = d\<rparr>) w)"

subsection \<open>outputMiddleware\<close>

text \<open>
  The function \<^verbatim>\<open>send\<close> that the handler defines for a payload. Destructuring
  \<^verbatim>\<open>outputs\<close> out of \<^verbatim>\<open>undefined\<close>, or calling \<^verbatim>\<open>has\<close> on the missing
  \<^verbatim>\<open>outputs\<close> of a promise, throws.
\<close>

definition send :: "midi_message \<Rightarrow> world \<Rightarrow> unit outcome" where
  "send payload w =
     (case midiAccess w of
        Handle a \<Rightarrow>
          (Inr (),
           if has (outputs a) (device payload) then
             w\<lparr>sendCalls := sendCalls w @ [(device payload, data payload, timestamp payload)]\<rparr>
           else w)
      | _ \<Rightarrow> (Inl TypeError, w))"

definition outputMiddleware_handler ::
  "(action \<Rightarrow> world \<Rightarrow> action outcome) \<Rightarrow> action \<Rightarrow> world \<Rightarrow> action outcome" where
  "outputMiddleware_handler nxt action w =
     (case nxt action w of
        (Inl e, w1) \<Rightarrow> (Inl e, w1)
      | (Inr action1, w1) \<Rightarrow>
          (case action1 of
             SEND_MIDI_MESSAGE payload \<Rightarrow>
               (case midiAccess w1 of
                  Handle a \<Rightarrow>
                    (case send payload w1 of
                       (Inl e, w2) \<Rightarrow> (Inl e, w2)
                     | (Inr _, w2) \<Rightarrow> (Inr action1, w2))
                | _ \<Rightarrow>
                    (let (p, w2) = requestMIDIAccessOnce w1 in
                     (Inr action1, then_callback p (Send payload) w2)))
           | _ \<Rightarrow> (Inr action1, w1)))"

subsection \<open>The store and its events\<close>

text \<open>
  The innermost \<^verbatim>\<open>dispatch\<close> of a store whose root reducer mounts \<^verbatim>\<open>reducer\<close>
  at \<open>key\<close> (\<^verbatim>\<open>combineReducers({midi: reducer})\<close>); it returns the action.
\<close>

definition store_dispatch :: "string \<Rightarrow> action \<Rightarrow> world \<Rightarrow> action outcome" where
  "store_dispatch key action w =
     (Inr action,
      w\<lparr>getState := (getState w)(key \<mapsto> reducer (getState w key) action),
        dispatched := dispatched w @ [action]\<rparr>)"

text \<open>\<^verbatim>\<open>applyMiddleware(inputMiddleware, outputMiddleware)\<close>: the store's \<^verbatim>\<open>dispatch\<close>.\<close>

definition middleware_dispatch :: "string \<Rightarrow> string \<Rightarrow> action \<Rightarrow> world \<Rightarrow> action outcome" where
  "middleware_dispatch stateKey key =
     inputMiddleware_handler stateKey (outputMiddleware_handler (store_dispatch key))"

text \<open>
  One queued callback. What it throws rejects a promise nobody reads, so only the
  world it leaves counts. The bootstrap callback sets \<^verbatim>\<open>onstatechange\<close> on the
  handle and defers the first snapshot.
\<close>

definition run_task ::
  "(action \<Rightarrow> world \<Rightarrow> action outcome) \<Rightarrow> string \<Rightarrow> task \<Rightarrow> world \<Rightarrow> world" where
  "run_task dispatch stateKey t w =
     (case t of
        Bootstrap \<Rightarrow>
          (case midiAccess w of
             Undefined \<Rightarrow> w
           | Thenable n st \<Rightarrow> w\<lparr>microtasks := microtasks w @ [SendDeviceList]\<rparr>
           | Handle a \<Rightarrow> w\<lparr>onstatechange := True, microtasks := microtasks w @ [SendDeviceList]\<rparr>)
      | Send payload \<Rightarrow> snd (send payload w)
      | SendDeviceList \<Rightarrow> snd (sendDeviceList dispatch stateKey w))"

text \<open>
  What can happen to a store built with both middleware: the application dispatches
  an action; the promise of \<^verbatim>\<open>requestMIDIAccess\<close> is fulfilled or rejected; the
  next microtask runs; the host changes the ports of the handle and reports it; an
  input port receives a message.
\<close>

datatype event =
    Dispatch action
  | Resolve midi_access
  | Reject
  | Microtask
  | StateChange midi_access
  | MidiMessage device_id raw_event

fun step :: "string \<Rightarrow> string \<Rightarrow> event \<Rightarrow> world \<Rightarrow> world" where
  "step stateKey key (Dispatch a) w = snd (middleware_dispatch stateKey key a w)"
| "step stateKey key (Resolve a) w = resolveAccess a w"
| "step stateKey key Reject w = rejectAccess w"
| "step stateKey key Microtask w =
     (case microtasks w of
        [] \<Rightarrow> w
      | t # ts \<Rightarrow> run_task (middleware_dispatch stateKey key) stateKey t (w\<lparr>microtasks := ts\<rparr>))"
| "step stateKey key (StateChange a) w =
     (case midiAccess w of
        Handle _ \<Rightarrow>
          (let w1 = w\<lparr>midiAccess := Handle a\<rparr> in
           if onstatechange w1 then snd (sendDeviceList (middleware_dispatch stateKey key) stateKey w1) else w1)
      | _ \<Rightarrow> w)"
| "step stateKey key (MidiMessage port ev) w =
     (case onmidimessage w port of
        None \<Rightarrow> w
      | Some d \<Rightarrow> snd (onmidimessage_callback (middleware_dispatch stateKey key) d ev w))"

fun run :: "string \<Rightarrow> string \<Rightarrow> event list \<Rightarrow> world \<Rightarrow> world" where
  "run stateKey key [] w = w"
| "run stateKey key (e # es) w = run stateKey key es (step stateKey key e w)"

text \<open>
  The world of a store just built with \<^verbatim>\<open>combineReducers\<close> and
  \<^verbatim>\<open>applyMiddleware(inputMiddleware, outputMiddleware)\<close>: its state under \<open>key\<close>
  is the reducer's initial state, and \<^verbatim>\<open>inputMiddleware\<close> has asked for the handle.
\<close>

definition createStore :: "string \<Rightarrow> world \<Rightarrow> world" where
  "createStore key w =
     inputMiddleware_install
       (w\<lparr>getState := (getState w)(key \<mapsto> reducer None (OTHER ''@@redux/INIT''))\<rparr>)"

subsection \<open>Invariants of a store\<close>

text \<open>Every installed callback carries the id of the port it is installed on.\<close>

definition callbacks_own :: "world \<Rightarrow> bool" where
  "callbacks_own w = (\<forall>p d. onmidimessage w p = Some d \<longrightarrow> d = p)"

text \<open>
  The handle has been asked for, by exactly one call of \<^verbatim>\<open>requestMIDIAccess\<close>, and
  the callbacks are the ports' own.
\<close>

definition requested_once :: "world \<Rightarrow> bool" where
  "requested_once w = (midiAccess w \<noteq> Undefined \<and> requestCalls w = 1 \<and> callbacks_own w)"

definition keeps :: "(world \<Rightarrow> 'a \<times> world) \<Rightarrow> bool" where
  "keeps f = (\<forall>w. requested_once w \<longrightarrow> requested_once (snd (f w)))"

subsection \<open>Example values\<close>

definition example_device :: "device_id \<Rightarrow> string \<Rightarrow> device" where
  "example_device i t =
     \<lparr>dev_id = i, dev_manufacturer = ''ACME'', dev_name = i, dev_type = t, dev_version = ''1'',
      dev_state = ''connected'', dev_connection = ''closed''\<rparr>"

definition example_access :: midi_access where
  "example_access =
     \<lparr>inputs = [(''b'', example_device ''b'' ''input''), (''a'', example_device ''a'' ''input'')],
      outputs = [(''out1'', example_device ''out1'' ''output''),
                 (''out2'', example_device ''out2'' ''output'')]\<rparr>"

definition example_message :: "device_id \<Rightarrow> midi_message" where
  "example_message d = \<lparr>timestamp = Some 5, data = [0x90, 60, 127], device = d\<rparr>"

definition legacy_event :: raw_event where
  "legacy_event =
     \<lparr>receivedTime = None, timeStamp = None, timestamp_ev = Some 7, data_ev = [0x90, 60, 127]\<rparr>"

text \<open>A new store, and the same store once the handle has arrived.\<close>

definition pending_world :: world where
  "pending_world = createStore ''midi'' new_world"

definition ready_world :: world where
  "ready_world = resolveAccess example_access pending_world"

text \<open>
  The ready store after its bootstrap callback and first snapshot have run and the
  application has asked to listen to \<open>b\<close> and to an id that no port has.
\<close>

definition listening_world :: world where
  "listening_world =
     run ''midi'' ''midi''
       [Microtask, Microtask, Dispatch (SET_LISTENING_DEVICES (Arr 9 [''b'', ''zz'']))]
       ready_world"

section \<open>The reducer\<close>

lemma reduce_all_devices:
  "devices (reduce_all s as) =
     (if device_lists as = [] then devices s else last (device_lists as))"
proof (induction as arbitrary: s)
  case Nil
  show ?case by simp
next
  case (Cons a as)
  show ?case by (cases a) (simp_all add: Cons.IH reducer_def)
qed

lemma reduce_all_listening:
  "listeningDevices (reduce_all s as) =
     (if listening_lists as = [] then listeningDevices s else last (listening_lists as))"
proof (induction as arbitrary: s)
  case Nil
  show ?case by simp
next
  case (Cons a as)
  show ?case by (cases a) (simp_all add: Cons.IH reducer_def)
qed

text \<open>
  Claim C1. For every state and every action, the reducer replaces \<open>devices\<close> by
  the payload of a \<open>RECEIVE_DEVICE_LIST\<close> action and leaves \<open>listeningDevices\<close>
  as it was, replaces \<open>listeningDevices\<close> by the payload of a
  \<open>SET_LISTENING_DEVICES\<close> action and leaves \<open>devices\<close> as it was, and returns
  the state unchanged for \<open>RECEIVE_MIDI_MESSAGE\<close>, \<open>SEND_MIDI_MESSAGE\<close> and
  every other action type. Without a state it starts from the initial state, whose two
  arrays are empty. Over every sequence of actions, each of the two fields is the
  payload of the last action of its type, or what it was when there is none.
\<close>

theorem reducer_last_write_wins:
  "reducer (Some s) (RECEIVE_DEVICE_LIST p) = s\<lparr>devices := p\<rparr> \<and>
   listeningDevices (reducer (Some s) (RECEIVE_DEVICE_LIST p)) = listeningDevices s \<and>
   reducer (Some s) (SET_LISTENING_DEVICES q) = s\<lparr>listeningDevices := q\<rparr> \<and>
   devices (reducer (Some s) (SET_LISTENING_DEVICES q)) = devices s \<and>
   reducer (Some s) (RECEIVE_MIDI_MESSAGE m) = s \<and>
   reducer (Some s) (SEND_MIDI_MESSAGE m) = s \<and>
   reducer (Some s) (OTHER t) = s \<and>
   reducer None a = reducer (Some initialState) a \<and>
   elems (devices initialState) = [] \<and> elems (listeningDevices initialState) = [] \<and>
   devices (reduce_all s as) =
     (if device_lists as = [] then devices s else last (device_lists as)) \<and>
   listeningDevices (reduce_all s as) =
     (if listening_lists as = [] then listeningDevices s else last (listening_lists as))"
  by (simp add: reducer_def initialState_def reduce_all_devices reduce_all_listening)

theorem reducer_last_write_wins_witness:
  "devices (reduce_all initialState
      [RECEIVE_DEVICE_LIST (Arr 5 []), SET_LISTENING_DEVICES (Arr 6 [''a'']),
       RECEIVE_MIDI_MESSAGE \<lparr>timestamp = None, data = [], device = ''a''\<rparr>,
       RECEIVE_DEVICE_LIST (Arr 7 []), OTHER ''x'']) = Arr 7 [] \<and>
   listeningDevices (reduce_all initialState
      [RECEIVE_DEVICE_LIST (Arr 5 []), SET_LISTENING_DEVICES (Arr 6 [''a'']),
       RECEIVE_MIDI_MESSAGE \<lparr>timestamp = None, data = [], device = ''a''\<rparr>,
       RECEIVE_DEVICE_LIST (Arr 7 []), OTHER ''x'']) = Arr 6 [''a'']"
  using reducer_last_write_wins [of initialState "Arr 5 []" "Arr 6 [''a'']"
      "\<lparr>timestamp = None, data = [], device = ''a''\<rparr>" "''x''" "OTHER ''x''"
      "[RECEIVE_DEVICE_LIST (Arr 5 []), SET_LISTENING_DEVICES (Arr 6 [''a'']),
       RECEIVE_MIDI_MESSAGE \<lparr>timestamp = None, data = [], device = ''a''\<rparr>,
       RECEIVE_DEVICE_LIST (Arr 7 []), OTHER ''x'']"]
  by (simp add: reducer_def)

section \<open>observeStore\<close>

lemma notify_calls:
  "onChange_calls (notify select sts obs) =
     onChange_calls obs @ changes (currentState obs) (map select sts)"
  by (induction sts arbitrary: obs) (simp_all add: handleChange_def Let_def)

text \<open>
  Claim C9. \<open>observeStore\<close> passes its listener to the store's \<open>subscribe\<close> and
  returns what \<open>subscribe\<close> returns. It computes the selection once at call time and
  once per notification; each time, \<open>onChange(next, prev)\<close> is called exactly when
  the new selection is not the last seen one (by identity), and the new selection
  becomes the last seen one. So the calls of \<open>onChange\<close> are the changes of the
  sequence of selections, read from \<open>undefined\<close>.
\<close>

theorem observeStore_spec:
  "unsubscribe (observeStore g sub select) = sub HandleChange \<and>
   currentState (observer (observeStore g sub select)) = select g \<and>
   onChange_calls (observer (observeStore g sub select)) =
     (if select g \<noteq> None then [(select g, None)] else []) \<and>
   currentState (handleChange select st obs) = select st \<and>
   onChange_calls (handleChange select st obs) =
     onChange_calls obs @
       (if select st \<noteq> currentState obs then [(select st, currentState obs)] else []) \<and>
   onChange_calls (notify select sts (observer (observeStore g sub select))) =
     changes None (map select (g # sts))"
  by (simp add: observeStore_def handleChange_def Let_def notify_calls)

section \<open>setup\<close>

text \<open>
  Claim C10. Calling \<open>setup\<close> with no argument throws a TypeError. With an object
  it returns, whatever properties the object leaves out: with the empty object the
  state key is \<open>midi\<close> and the request function is the default one.
\<close>

theorem setup_no_argument:
  "setup_midi dflt None = Inl TypeError \<and>
   setup_midi dflt
       (Some \<lparr>cfg_midiOptions = None, cfg_stateKey = None, cfg_requestMIDIAccess = None\<rparr>) =
     Inr \<lparr>cl_midiOptions = None, cl_stateKey = ''midi'', cl_requestMIDIAccess = dflt,
          cl_world = new_world\<rparr> \<and>
   (\<exists>cl. setup_midi dflt (Some c) = Inr cl)"
  by (simp add: setup_midi_def)

section \<open>What every event keeps\<close>

lemma keepsI: "(\<And>w. requested_once w \<Longrightarrow> requested_once (snd (f w))) \<Longrightarrow> keeps f"
  by (simp add: keeps_def)

lemma keepsD: "keeps f \<Longrightarrow> requested_once w \<Longrightarrow> requested_once (snd (f w))"
  by (simp add: keeps_def)

lemma unlisten_keeps: "requested_once w \<Longrightarrow> requested_once (snd (unlisten ds w))"
proof (induction ds arbitrary: w)
  case Nil
  then show ?case by simp
next
  case (Cons d ds)
  show ?case
  proof (cases "inputs_has (midiAccess w) d")
    case (Inl e)
    then show ?thesis using Cons.prems by simp
  next
    case (Inr b)
    have "requested_once (if b then w\<lparr>onmidimessage := (onmidimessage w)(d := None)\<rparr> else w)"
      using Cons.prems by (simp add: requested_once_def callbacks_own_def)
    then show ?thesis using Inr Cons.IH by simp
  qed
qed

lemma listen_keeps: "requested_once w \<Longrightarrow> requested_once (snd (listen ds w))"
proof (induction ds arbitrary: w)
  case Nil
  then show ?case by simp
next
  case (Cons d ds)
  show ?case
  proof (cases "inputs_has (midiAccess w) d")
    case (Inl e)
    then show ?thesis using Cons.prems by simp
  next
    case (Inr b)
    have "requested_once (if b then w\<lparr>onmidimessage := (onmidimessage w)(d \<mapsto> d)\<rparr> else w)"
      using Cons.prems by (simp add: requested_once_def callbacks_own_def)
    then show ?thesis using Inr Cons.IH by simp
  qed
qed

lemma store_dispatch_keeps: "keeps (store_dispatch key a)"
  by (simp add: keeps_def store_dispatch_def requested_once_def callbacks_own_def)

lemma send_keeps: "keeps (send m)"
  by (simp add: keeps_def send_def requested_once_def callbacks_own_def split: access_var.splits)

lemma outputMiddleware_keeps:
  assumes "\<And>a. keeps (nxt a)"
  shows "keeps (outputMiddleware_handler nxt a)"
proof (rule keepsI)
  fix w assume w: "requested_once w"
  obtain r w1 where n: "nxt a w = (r, w1)" by (cases "nxt a w")
  have w1: "requested_once w1" using keepsD [OF assms w, of a] n by simp
  show "requested_once (snd (outputMiddleware_handler nxt a w))"
  proof (cases r)
    case (Inl e)
    then show ?thesis using n w1 by (simp add: outputMiddleware_handler_def)
  next
    case (Inr a1)
    show ?thesis
    proof (cases a1)
      case (SEND_MIDI_MESSAGE m)
      have s: "requested_once (snd (send m w1))" using keepsD [OF send_keeps w1] .
      show ?thesis
      proof (cases "midiAccess w1")
        case Undefined
        then show ?thesis using w1 by (simp add: requested_once_def)
      next
        case (Thenable k st)
        then show ?thesis using n Inr SEND_MIDI_MESSAGE w1
          by (cases st)
             (simp_all add: outputMiddleware_handler_def requestMIDIAccessOnce_def
               then_callback_def requested_once_def callbacks_own_def)
      next
        case (Handle h)
        then show ?thesis using n Inr SEND_MIDI_MESSAGE s
          by (cases "send m w1") (auto simp add: outputMiddleware_handler_def split: sum.splits)
      qed
    qed (use n Inr w1 in \<open>simp_all add: outputMiddleware_handler_def\<close>)
  qed
qed

lemma inputMiddleware_keeps:
  assumes "\<And>a. keeps (nxt a)"
  shows "keeps (inputMiddleware_handler stateKey nxt a)"
proof (rule keepsI)
  fix w assume w: "requested_once w"
  obtain r w1 where n: "nxt a w = (r, w1)" by (cases "nxt a w")
  have w1: "requested_once w1" using keepsD [OF assms w, of a] n by simp
  show "requested_once (snd (inputMiddleware_handler stateKey nxt a w))"
  proof (cases r)
    case (Inl e)
    then show ?thesis using n w1 by (simp add: inputMiddleware_handler_def)
  next
    case (Inr a1)
    show ?thesis
    proof (cases "getState w1 stateKey")
      case None
      then show ?thesis using n Inr w1 by (simp add: inputMiddleware_handler_def)
    next
      case (Some state)
      let ?prev = "case getState w stateKey of None \<Rightarrow> initialState | Some s \<Rightarrow> s"
      show ?thesis
      proof (cases "listenDiff (midiAccess w1) ?prev state")
        case (Inl e)
        then show ?thesis using n Inr Some w1 by (simp add: inputMiddleware_handler_def)
      next
        case (Inr lists)
        obtain toListen toUnlisten where l: "lists = (toListen, toUnlisten)" by (cases lists)
        obtain r2 w2 where u: "unlisten toUnlisten w1 = (r2, w2)"
          by (cases "unlisten toUnlisten w1")
        have w2: "requested_once w2" using unlisten_keeps [OF w1, of toUnlisten] u by simp
        obtain r3 w3 where li: "listen toListen w2 = (r3, w3)" by (cases "listen toListen w2")
        have w3: "requested_once w3" using listen_keeps [OF w2, of toListen] li by simp
        show ?thesis
          using n \<open>r = Inr a1\<close> Some Inr l u li w2 w3
          by (cases r2; cases r3) (simp_all add: inputMiddleware_handler_def)
      qed
    qed
  qed
qed

lemma middleware_dispatch_keeps: "keeps (middleware_dispatch stateKey key a)"
  unfolding middleware_dispatch_def
  by (rule inputMiddleware_keeps, rule outputMiddleware_keeps, rule store_dispatch_keeps)

lemma sendDeviceList_keeps:
  assumes "\<And>a. keeps (dispatch a)"
  shows "keeps (sendDeviceList dispatch stateKey)"
proof (rule keepsI)
  fix w assume w: "requested_once w"
  show "requested_once (snd (sendDeviceList dispatch stateKey w))"
  proof (cases "midiAccess w")
    case (Handle h)
    show ?thesis
    proof (cases "getState w stateKey")
      case None
      then show ?thesis using Handle w by (simp add: sendDeviceList_def)
    next
      case (Some state)
      let ?a = "receiveDeviceList (Arr (nextRef w) (snapshot h))"
      let ?w = "w\<lparr>nextRef := nextRef w + 1\<rparr>"
      have n: "requested_once ?w"
        using w by (simp add: requested_once_def callbacks_own_def)
      obtain r w1 where d: "dispatch ?a ?w = (r, w1)" by (cases "dispatch ?a ?w")
      have "requested_once w1" using keepsD [OF assms n, of ?a] d by simp
      then show ?thesis using Handle Some w d
        by (cases r) (simp_all add: sendDeviceList_def Let_def)
    qed
  qed (use w in \<open>simp_all add: sendDeviceList_def\<close>)
qed

lemma onmidimessage_callback_keeps:
  assumes "\<And>a. keeps (dispatch a)"
  shows "keeps (onmidimessage_callback dispatch d ev)"
proof (rule keepsI)
  fix w assume "requested_once w"
  then show "requested_once (snd (onmidimessage_callback dispatch d ev w))"
    using keepsD [OF assms] by (simp add: onmidimessage_callback_def Let_def)
qed

lemma run_task_keeps:
  assumes "\<And>a. keeps (dispatch a)" and "requested_once w"
  shows "requested_once (run_task dispatch stateKey t w)"
proof (cases t)
  case Bootstrap
  then show ?thesis using assms(2)
    by (simp add: run_task_def requested_once_def callbacks_own_def split: access_var.splits)
next
  case (Send m)
  then show ?thesis using keepsD [OF send_keeps assms(2)] by (simp add: run_task_def)
next
  case SendDeviceList
  then show ?thesis using keepsD [OF sendDeviceList_keeps [OF assms(1)] assms(2)]
    by (simp add: run_task_def)
qed

lemma step_keeps:
  assumes "requested_once w"
  shows "requested_once (step stateKey key e w)"
proof (cases e)
  case (Dispatch a)
  then show ?thesis using keepsD [OF middleware_dispatch_keeps assms] by simp
next
  case (Resolve a)
  then show ?thesis using assms
    by (simp add: resolveAccess_def requested_once_def callbacks_own_def
        split: access_var.splits promise_state.splits)
next
  case Reject
  then show ?thesis using assms
    by (simp add: rejectAccess_def requested_once_def callbacks_own_def
        split: access_var.splits promise_state.splits)
next
  case Microtask
  show ?thesis
  proof (cases "microtasks w")
    case Nil
    then show ?thesis using Microtask assms by simp
  next
    case (Cons t ts)
    have "requested_once (w\<lparr>microtasks := ts\<rparr>)"
      using assms by (simp add: requested_once_def callbacks_own_def)
    then show ?thesis using Microtask Cons run_task_keeps [OF middleware_dispatch_keeps]
      by simp
  qed
next
  case (StateChange a)
  show ?thesis
  proof (cases "midiAccess w")
    case (Handle h)
    have w1: "requested_once (w\<lparr>midiAccess := Handle a\<rparr>)"
      using assms by (simp add: requested_once_def callbacks_own_def)
    show ?thesis
      using StateChange Handle w1
        keepsD [OF sendDeviceList_keeps [OF middleware_dispatch_keeps] w1]
      by (simp add: Let_def)
  qed (use StateChange assms in simp_all)
next
  case (MidiMessage port ev)
  then show ?thesis
    using assms keepsD [OF onmidimessage_callback_keeps [OF middleware_dispatch_keeps] assms]
    by (simp split: option.splits)
qed

lemma run_keeps: "requested_once w \<Longrightarrow> requested_once (run stateKey key es w)"
  by (induction es arbitrary: w) (simp_all add: step_keeps)

lemma createStore_requested_once: "requested_once (createStore key new_world)"
  by (simp add: createStore_def new_world_def inputMiddleware_install_def
      requestMIDIAccessOnce_def then_callback_def requested_once_def callbacks_own_def)

lemma reachable_requested_once:
  "requested_once (run stateKey key es (createStore key new_world))"
  by (rule run_keeps) (rule createStore_requested_once)

section \<open>requestMIDIAccessOnce\<close>

lemma request_times_thenable:
  "midiAccess w = Thenable n st \<Longrightarrow> request_times k w = (replicate k (Stored n st), w)"
  by (induction k) (simp_all add: requestMIDIAccessOnce_def)

lemma request_times_handle:
  "midiAccess w = Handle a \<Longrightarrow> request_times k w = (replicate k (Fresh a), w)"
  by (induction k) (simp_all add: requestMIDIAccessOnce_def)

text \<open>
  Claim C3. Starting with no handle asked for, any number of calls of
  \<open>requestMIDIAccessOnce\<close> before the promise settles makes exactly one call of
  \<open>requestMIDIAccess\<close>, and every call returns the same pending promise. Once the
  promise is fulfilled, every later call returns the handle and makes no new request.
  In a store built with both middleware the count stays at one, whatever happens.
\<close>

theorem requestMIDIAccessOnce_once:
  assumes "midiAccess w = Undefined"
  shows "request_times (Suc k) w =
           (replicate (Suc k) (Stored (Suc (requestCalls w)) Pending),
            w\<lparr>requestCalls := Suc (requestCalls w),
              midiAccess := Thenable (Suc (requestCalls w)) Pending\<rparr>) \<and>
         requestCalls (snd (request_times (Suc k) w)) = Suc (requestCalls w) \<and>
         request_times j (resolveAccess a (snd (request_times (Suc k) w))) =
           (replicate j (Fresh a), resolveAccess a (snd (request_times (Suc k) w))) \<and>
         requestCalls (snd (request_times j (resolveAccess a (snd (request_times (Suc k) w))))) =
           Suc (requestCalls w) \<and>
         requestCalls (run stateKey key es (createStore key new_world)) = 1"
proof -
  let ?w1 = "w\<lparr>requestCalls := Suc (requestCalls w),
              midiAccess := Thenable (Suc (requestCalls w)) Pending\<rparr>"
  have first: "requestMIDIAccessOnce w = (Stored (Suc (requestCalls w)) Pending, ?w1)"
    using assms by (simp add: requestMIDIAccessOnce_def Let_def)
  have rest: "request_times k ?w1 = (replicate k (Stored (Suc (requestCalls w)) Pending), ?w1)"
    by (rule request_times_thenable) simp
  have all: "request_times (Suc k) w =
      (replicate (Suc k) (Stored (Suc (requestCalls w)) Pending), ?w1)"
    by (simp add: first rest)
  have handle: "midiAccess (resolveAccess a ?w1) = Handle a"
    by (simp add: resolveAccess_def)
  have calls: "requestCalls (resolveAccess a ?w1) = Suc (requestCalls w)"
    by (simp add: resolveAccess_def)
  have store: "requestCalls (run stateKey key es (createStore key new_world)) = 1"
    using reachable_requested_once [of stateKey key es] by (simp add: requested_once_def)
  show ?thesis
    by (simp only: all snd_conv request_times_handle [OF handle] calls store) simp
qed

theorem requestMIDIAccessOnce_once_witness:
  "midiAccess new_world = Undefined \<and>
   fst (request_times 3 new_world) = [Stored 1 Pending, Stored 1 Pending, Stored 1 Pending] \<and>
   requestCalls (snd (request_times 3 new_world)) = 1 \<and>
   fst (request_times 2 (resolveAccess example_access (snd (request_times 3 new_world)))) =
     [Fresh example_access, Fresh example_access] \<and>
   requestCalls (snd (request_times 2
      (resolveAccess example_access (snd (request_times 3 new_world))))) = 1"
proof -
  have u: "midiAccess new_world = Undefined" by (simp add: new_world_def)
  show ?thesis
    using requestMIDIAccessOnce_once [OF u, of 2 2 example_access]
    by (simp add: numeral_3_eq_3 numeral_2_eq_2 new_world_def requestMIDIAccessOnce_def
        resolveAccess_def)
qed

text \<open>
  Claim C4, as the code has it. When the promise of \<open>requestMIDIAccess\<close> is rejected,
  the variable keeps the rejected promise: the next call of
  \<open>requestMIDIAccessOnce\<close> returns that promise, makes no new request, and a
  callback chained on it is never called.
\<close>

theorem rejected_request_is_cached:
  assumes "midiAccess w = Thenable n Pending"
  shows "requestMIDIAccessOnce (rejectAccess w) = (Stored n Rejected, rejectAccess w) \<and>
         requestCalls (snd (requestMIDIAccessOnce (rejectAccess w))) = requestCalls w \<and>
         then_callback (Stored n Rejected) cb (rejectAccess w) = rejectAccess w"
  using assms by (simp add: requestMIDIAccessOnce_def rejectAccess_def then_callback_def)

theorem rejected_request_is_cached_witness:
  "midiAccess (snd (requestMIDIAccessOnce new_world)) = Thenable 1 Pending \<and>
   fst (requestMIDIAccessOnce (rejectAccess (snd (requestMIDIAccessOnce new_world)))) =
     Stored 1 Rejected \<and>
   requestCalls
     (snd (requestMIDIAccessOnce (rejectAccess (snd (requestMIDIAccessOnce new_world))))) = 1"
proof -
  have p: "midiAccess (snd (requestMIDIAccessOnce new_world)) = Thenable 1 Pending"
    by (simp add: requestMIDIAccessOnce_def new_world_def)
  show ?thesis
    using rejected_request_is_cached [OF p, of Bootstrap]
    by (simp add: requestMIDIAccessOnce_def new_world_def rejectAccess_def)
qed

text \<open>
  After one request and its rejection, one more call of \<open>requestMIDIAccessOnce\<close>
  leaves the number of requests at one and returns the rejected promise.
\<close>

theorem rejected_request_counterexample:
  "requestCalls (rejectAccess (snd (requestMIDIAccessOnce new_world))) = 1 \<and>
   requestCalls
     (snd (requestMIDIAccessOnce (rejectAccess (snd (requestMIDIAccessOnce new_world))))) = 1 \<and>
   fst (requestMIDIAccessOnce (rejectAccess (snd (requestMIDIAccessOnce new_world)))) =
     Stored 1 Rejected"
  by (simp add: requestMIDIAccessOnce_def rejectAccess_def new_world_def)

section \<open>Evaluating the examples\<close>

lemmas world_defs = ready_world_def pending_world_def createStore_def new_world_def
  inputMiddleware_install_def requestMIDIAccessOnce_def then_callback_def resolveAccess_def
  reducer_def initialState_def

lemmas handler_defs = middleware_dispatch_def inputMiddleware_handler_def
  outputMiddleware_handler_def store_dispatch_def listenDiff_def listeningDiff_def
  devicesDiff_def inputs_has_def has_def Let_def

lemmas example_defs = example_access_def example_device_def example_message_def
  legacy_event_def snapshot_def sortBy_def values_of_def descriptor_def

lemma ready_world_access: "midiAccess ready_world = Handle example_access"
  by (simp add: world_defs)


lemma listening_world_eval:
  "onmidimessage listening_world ''b'' = Some ''b'' \<and>
   onmidimessage listening_world ''zz'' = None \<and>
   onmidimessage listening_world ''a'' = None \<and>
   dispatched listening_world =
     [RECEIVE_DEVICE_LIST (Arr 2 (snapshot example_access)),
      SET_LISTENING_DEVICES (Arr 9 [''b'', ''zz''])]"
  by (simp add: listening_world_def world_defs run_task_def sendDeviceList_def
      receiveDeviceList_def handler_defs example_defs)

lemma listening_world_reachable:
  "listening_world =
     run ''midi'' ''midi''
       [Resolve example_access, Microtask, Microtask,
        Dispatch (SET_LISTENING_DEVICES (Arr 9 [''b'', ''zz'']))]
       (createStore ''midi'' new_world)"
  by (simp add: listening_world_def ready_world_def pending_world_def)

lemma message_dispatched:
  "dispatched (snd (middleware_dispatch ''midi'' ''midi''
       (RECEIVE_MIDI_MESSAGE \<lparr>timestamp = Some 7, data = [0x90, 60, 127], device = ''b''\<rparr>)
       listening_world)) =
     [RECEIVE_DEVICE_LIST (Arr 2 (snapshot example_access)),
      SET_LISTENING_DEVICES (Arr 9 [''b'', ''zz'']),
      RECEIVE_MIDI_MESSAGE \<lparr>timestamp = Some 7, data = [0x90, 60, 127], device = ''b''\<rparr>]"
  by (simp add: listening_world_def world_defs run_task_def sendDeviceList_def
      receiveDeviceList_def handler_defs example_defs)

section \<open>outputMiddleware\<close>




section \<open>inputMiddleware\<close>

text \<open>
  Claim C5, at a failing input. In a new store, whose promise is still pending, the
  handler of \<open>inputMiddleware\<close> throws a TypeError on the action that sets the
  listened devices to \<open>b\<close>: it reads \<open>inputs\<close> of the promise. The handler of
  \<open>outputMiddleware\<close> checks for the promise and returns its action in the same
  store.
\<close>

theorem input_handler_throws_unresolved:
  "midiAccess pending_world = Thenable 1 Pending \<and>
   getState pending_world ''midi'' = Some initialState \<and>
   fst (inputMiddleware_handler ''midi'' (outputMiddleware_handler (store_dispatch ''midi''))
          (SET_LISTENING_DEVICES (Arr 9 [''b''])) pending_world) = Inl TypeError \<and>
   fst (outputMiddleware_handler (store_dispatch ''midi'')
          (SEND_MIDI_MESSAGE (example_message ''out1'')) pending_world) =
     Inr (SEND_MIDI_MESSAGE (example_message ''out1''))"
  by (simp add: world_defs handler_defs)






section \<open>sendDeviceList\<close>

lemma descriptor_ident: "descriptor port = port"
  by (simp add: descriptor_def)

lemma map_descriptor: "map descriptor ports = ports"
  by (induction ports) (simp_all add: descriptor_ident)

lemma deepEqual_device_iff: "deepEqual_device x y \<longleftrightarrow> x = y"
  by (auto simp add: deepEqual_device_def)

lemma deepEqual_iff: "deepEqual xs ys \<longleftrightarrow> xs = ys"
  by (induction xs ys rule: deepEqual.induct) (simp_all add: deepEqual_device_iff)

text \<open>
  Claim C7. With the handle there and a state under the state key, the snapshot holds
  the descriptors of all input and output ports, each once per port, in ascending
  order of id; \<open>sendDeviceList\<close> compares it with the elements of the state's
  \<open>devices\<close> (not with the array object) and dispatches \<open>RECEIVE_DEVICE_LIST\<close>
  with the snapshot, in a new array, exactly when they differ.
\<close>

theorem sendDeviceList_spec:
  assumes "midiAccess w = Handle a" and "getState w stateKey = Some state"
  shows "sorted (map dev_id (snapshot a)) \<and>
         mset (snapshot a) = mset (values_of (inputs a) @ values_of (outputs a)) \<and>
         sendDeviceList dispatch stateKey w =
           (if snapshot a = elems (devices state) then (Inr (), w)
            else (case dispatch (RECEIVE_DEVICE_LIST (Arr (nextRef w) (snapshot a)))
                         (w\<lparr>nextRef := nextRef w + 1\<rparr>) of
                    (Inl e, w1) \<Rightarrow> (Inl e, w1)
                  | (Inr _, w1) \<Rightarrow> (Inr (), w1)))"
proof -
  have s: "sorted (map dev_id (snapshot a))"
    by (simp add: snapshot_def sortBy_def)
  have m: "mset (snapshot a) = mset (values_of (inputs a) @ values_of (outputs a))"
    by (simp add: snapshot_def sortBy_def map_descriptor)
  have d: "sendDeviceList dispatch stateKey w =
           (if snapshot a = elems (devices state) then (Inr (), w)
            else (case dispatch (RECEIVE_DEVICE_LIST (Arr (nextRef w) (snapshot a)))
                         (w\<lparr>nextRef := nextRef w + 1\<rparr>) of
                    (Inl e, w1) \<Rightarrow> (Inl e, w1)
                  | (Inr _, w1) \<Rightarrow> (Inr (), w1)))"
    using assms by (simp add: sendDeviceList_def deepEqual_iff receiveDeviceList_def Let_def)
  from s m d show ?thesis by simp
qed

theorem sendDeviceList_spec_witness:
  "midiAccess ready_world = Handle example_access \<and>
   getState ready_world ''midi'' = Some initialState \<and>
   map dev_id (snapshot example_access) = [''a'', ''b'', ''out1'', ''out2''] \<and>
   dispatched (snd (sendDeviceList (store_dispatch ''midi'') ''midi'' ready_world)) =
     [RECEIVE_DEVICE_LIST (Arr 2 (snapshot example_access))] \<and>
   dispatched (snd (sendDeviceList (store_dispatch ''midi'') ''midi''
       (snd (sendDeviceList (store_dispatch ''midi'') ''midi'' ready_world)))) =
     [RECEIVE_DEVICE_LIST (Arr 2 (snapshot example_access))]"
proof -
  let ?d = "store_dispatch ''midi''"
  let ?w1 = "snd (sendDeviceList ?d ''midi'' ready_world)"
  have g: "getState ready_world ''midi'' = Some initialState"
    by (simp add: world_defs)
  have ne: "snapshot example_access \<noteq> elems (devices initialState)"
    by (simp add: initialState_def example_defs)
  have nr: "nextRef ready_world = 2" "dispatched ready_world = []"
    by (simp_all add: world_defs)
  have ids: "map dev_id (snapshot example_access) = [''a'', ''b'', ''out1'', ''out2'']"
    by (simp add: example_defs)
  from sendDeviceList_spec [OF ready_world_access g, of ?d] ne
  have first: "sendDeviceList ?d ''midi'' ready_world =
      (case ?d (RECEIVE_DEVICE_LIST (Arr (nextRef ready_world) (snapshot example_access)))
              (ready_world\<lparr>nextRef := nextRef ready_world + 1\<rparr>) of
         (Inl e, w1) \<Rightarrow> (Inl e, w1) | (Inr _, w1) \<Rightarrow> (Inr (), w1))"
    by simp
  have a1: "midiAccess ?w1 = Handle example_access"
    by (simp add: first store_dispatch_def ready_world_access)
  have g1: "getState ?w1 ''midi'' =
      Some (initialState\<lparr>devices := Arr 2 (snapshot example_access)\<rparr>)"
    by (simp add: first store_dispatch_def g nr reducer_def)
  have c1: "dispatched ?w1 = [RECEIVE_DEVICE_LIST (Arr 2 (snapshot example_access))]"
    by (simp add: first store_dispatch_def nr)
  from sendDeviceList_spec [OF a1 g1, of ?d]
  have second: "sendDeviceList ?d ''midi'' ?w1 = (Inr (), ?w1)"
    by simp
  have c2: "dispatched (snd (sendDeviceList ?d ''midi'' ?w1)) =
      [RECEIVE_DEVICE_LIST (Arr 2 (snapshot example_access))]"
    by (simp only: second snd_conv c1)
  from ready_world_access g ids c1 c2 show ?thesis by blast
qed

section \<open>The message callback\<close>

text \<open>
  Claim C8. The callback installed for a device dispatches \<open>RECEIVE_MIDI_MESSAGE\<close>
  with the first defined of the event's \<open>receivedTime\<close>, \<open>timeStamp\<close> and
  \<open>timestamp\<close> as timestamp, the event's bytes as data, and that device's id; an
  event with only the legacy \<open>timestamp\<close> gives that value. Listening to an input
  port installs the callback of that port's own id, and in every store reached from a
  new one, a message on a port with a callback dispatches the action with the port's id.
\<close>

theorem onmidimessage_callback_spec:
  "onmidimessage_callback dispatch d ev w =
     dispatch (RECEIVE_MIDI_MESSAGE
        \<lparr>timestamp = (case receivedTime ev of Some t \<Rightarrow> Some t
                       | None \<Rightarrow> (case timeStamp ev of Some t \<Rightarrow> Some t
                                   | None \<Rightarrow> timestamp_ev ev)),
         data = data_ev ev, device = d\<rparr>) w \<and>
   onmidimessage_callback dispatch d
       \<lparr>receivedTime = None, timeStamp = None, timestamp_ev = Some t, data_ev = bytes\<rparr> w =
     dispatch (RECEIVE_MIDI_MESSAGE \<lparr>timestamp = Some t, data = bytes, device = d\<rparr>) w \<and>
   (midiAccess w = Handle a \<and> has (inputs a) d \<longrightarrow>
      onmidimessage (snd (listen [d] w)) d = Some d) \<and>
   (onmidimessage (run stateKey key es (createStore key new_world)) port = Some d \<longrightarrow>
      d = port \<and>
      step stateKey key (MidiMessage port ev) (run stateKey key es (createStore key new_world)) =
        snd (middleware_dispatch stateKey key
               (RECEIVE_MIDI_MESSAGE
                  \<lparr>timestamp = (case receivedTime ev of Some t \<Rightarrow> Some t
                                 | None \<Rightarrow> (case timeStamp ev of Some t \<Rightarrow> Some t
                                             | None \<Rightarrow> timestamp_ev ev)),
                   data = data_ev ev, device = port\<rparr>)
               (run stateKey key es (createStore key new_world))))"
proof -
  have cb: "\<And>dispatch d ev w. onmidimessage_callback dispatch d ev w =
     dispatch (RECEIVE_MIDI_MESSAGE
        \<lparr>timestamp = (case receivedTime ev of Some t \<Rightarrow> Some t
                       | None \<Rightarrow> (case timeStamp ev of Some t \<Rightarrow> Some t
                                   | None \<Rightarrow> timestamp_ev ev)),
         data = data_ev ev, device = d\<rparr>) w"
    by (simp add: onmidimessage_callback_def receiveMidiMessage_def split: option.splits)
  have legacy: "onmidimessage_callback dispatch d
       \<lparr>receivedTime = None, timeStamp = None, timestamp_ev = Some t, data_ev = bytes\<rparr> w =
     dispatch (RECEIVE_MIDI_MESSAGE \<lparr>timestamp = Some t, data = bytes, device = d\<rparr>) w"
    by (simp add: cb)
  have inst: "midiAccess w = Handle a \<and> has (inputs a) d \<longrightarrow>
      onmidimessage (snd (listen [d] w)) d = Some d"
    by (simp add: inputs_has_def)
  let ?w = "run stateKey key es (createStore key new_world)"
  have own: "onmidimessage ?w port = Some d \<longrightarrow> d = port"
    using reachable_requested_once [of stateKey key es]
    by (simp add: requested_once_def callbacks_own_def)
  have sys: "onmidimessage ?w port = Some d \<longrightarrow>
      step stateKey key (MidiMessage port ev) ?w =
        snd (middleware_dispatch stateKey key
               (RECEIVE_MIDI_MESSAGE
                  \<lparr>timestamp = (case receivedTime ev of Some t \<Rightarrow> Some t
                                 | None \<Rightarrow> (case timeStamp ev of Some t \<Rightarrow> Some t
                                             | None \<Rightarrow> timestamp_ev ev)),
                   data = data_ev ev, device = port\<rparr>) ?w)"
    using own by (auto simp add: cb)
  from cb [of dispatch d ev w] legacy inst own sys show ?thesis by blast
qed

theorem onmidimessage_callback_spec_witness:
  "midiAccess ready_world = Handle example_access \<and>
   has (inputs example_access) ''b'' \<and>
   onmidimessage (snd (listen [''b''] ready_world)) ''b'' = Some ''b'' \<and>
   onmidimessage listening_world ''b'' = Some ''b'' \<and>
   dispatched (step ''midi'' ''midi'' (MidiMessage ''b'' legacy_event) listening_world) =
     [RECEIVE_DEVICE_LIST (Arr 2 (snapshot example_access)),
      SET_LISTENING_DEVICES (Arr 9 [''b'', ''zz'']),
      RECEIVE_MIDI_MESSAGE \<lparr>timestamp = Some 7, data = [0x90, 60, 127], device = ''b''\<rparr>]"
proof -
  have h: "has (inputs example_access) ''b''"
    by (simp add: has_def example_access_def)
  have b: "onmidimessage listening_world ''b'' = Some ''b''"
    using listening_world_eval by simp
  have ev: "(case receivedTime legacy_event of Some t \<Rightarrow> Some t
             | None \<Rightarrow> (case timeStamp legacy_event of Some t \<Rightarrow> Some t
                         | None \<Rightarrow> timestamp_ev legacy_event)) = Some 7"
      "data_ev legacy_event = [0x90, 60, 127]"
    by (simp_all add: legacy_event_def)
  note t = onmidimessage_callback_spec [where w = ready_world and a = example_access
      and d = "''b''" and port = "''b''" and ev = legacy_event and stateKey = "''midi''"
      and key = "''midi''"
      and es = "[Resolve example_access, Microtask, Microtask,
                 Dispatch (SET_LISTENING_DEVICES (Arr 9 [''b'', ''zz'']))]",
      folded listening_world_reachable]
  from t ready_world_access h
  have c1: "onmidimessage (snd (listen [''b''] ready_world)) ''b'' = Some ''b''"
    by blast
  from t b
  have c2: "step ''midi'' ''midi'' (MidiMessage ''b'' legacy_event) listening_world =
      snd (middleware_dispatch ''midi'' ''midi''
             (RECEIVE_MIDI_MESSAGE
                \<lparr>timestamp = (case receivedTime legacy_event of Some t \<Rightarrow> Some t
                               | None \<Rightarrow> (case timeStamp legacy_event of Some t \<Rightarrow> Some t
                                           | None \<Rightarrow> timestamp_ev legacy_event)),
                 data = data_ev legacy_event, device = ''b''\<rparr>)
             listening_world)"
    by blast
  have c3: "dispatched (step ''midi'' ''midi'' (MidiMessage ''b'' legacy_event) listening_world) =
     [RECEIVE_DEVICE_LIST (Arr 2 (snapshot example_access)),
      SET_LISTENING_DEVICES (Arr 9 [''b'', ''zz'']),
      RECEIVE_MIDI_MESSAGE \<lparr>timestamp = Some 7, data = [0x90, 60, 127], device = ''b''\<rparr>]"
    by (simp only: c2 ev message_dispatched)
  from ready_world_access h c1 b c3 show ?thesis by blast
qed

end
